theory Spec2Isabelle
  imports Complex_Main "HOL-Library.Log_Nat" "HOL-Library.Word"
begin

section \<open>Data model\<close>

text \<open>
  The Mongoose documents of \<^verbatim>\<open>server/models/Budget.js\<close> and
  \<^verbatim>\<open>server/models/Expense.js\<close>, restricted to the paths that the controllers
  \<^verbatim>\<open>expenseController\<close> and \<^verbatim>\<open>budgetController\<close> read or write.
  A stored amount is a finite Number, given by its rational value; the results of
  JavaScript arithmetic are values of the type \<open>Number\<close> below.  A Date is its
  \<^verbatim>\<open>valueOf()\<close>, the milliseconds since the epoch, an ObjectId is a natural number, and a
  String is the list of its UTF-16 code units, which is what \<^verbatim>\<open>length\<close> counts.  A path
  that may be \<^verbatim>\<open>undefined\<close> is an option.
\<close>

type_synonym code_unit = "16 word"
type_synonym jsstring = "code_unit list"

text \<open>The String of a literal of ASCII text.\<close>

definition code_units :: "string \<Rightarrow> jsstring" where
  "code_units s = map (\<lambda>c. of_nat (of_char c)) s"

type_synonym objectId = nat
type_synonym msec = int

datatype Role = Role_admin | Role_manager | Role_user

record User =
  u_id :: objectId
  role :: Role

datatype BudgetStatus = Draft | BPending | BApproved | BRejected | Active | Expired

record Budget =
  b_amount :: rat
  b_status :: BudgetStatus
  startDate :: msec
  endDate :: msec
  owner :: objectId
  alertThreshold :: rat

datatype ExpenseStatus = Pending | Approved | Rejected | Reimbursed

datatype AuditAction =
  Created | Updated | AuditApproved | AuditRejected | AuditReimbursed | Deleted

record AuditEntry =
  action :: AuditAction
  performedBy :: objectId
  timestamp :: msec

record Expense =
  e_id :: objectId
  amount :: rat
  exchangeRate :: rat
  convertedAmount :: "rat option"
  date :: msec
  budget :: "objectId option"
  status :: ExpenseStatus
  submittedBy :: objectId
  approvedBy :: "objectId option"
  approvalDate :: "msec option"
  rejectionReason :: "jsstring option"
  auditLog :: "AuditEntry list"

text \<open>
  The entity store: budgets and users by identifier, the expense collection as the list of
  its documents.
\<close>

record Store =
  budgets :: "objectId \<rightharpoonup> Budget"
  users :: "objectId \<rightharpoonup> User"
  expenses :: "Expense list"

section \<open>Numbers\<close>

text \<open>
  A JavaScript Number is an IEEE 754 binary64 value: a finite double, an infinity, or NaN.
  The two zeros are one value here, the positive one.
\<close>

datatype Number = Finite rat | Infinity | NegInfinity | NaN

definition pow2 :: "int \<Rightarrow> rat" where
  "pow2 e = (if 0 \<le> e then 2 ^ nat e else 1 / 2 ^ nat (- e))"

definition round_half_even :: "rat \<Rightarrow> int" where
  "round_half_even x =
     (let f = \<lfloor>x\<rfloor>; r = x - of_int f
      in if r < 1 / 2 then f else if 1 / 2 < r then f + 1
         else if even f then f else f + 1)"

text \<open>\<^verbatim>\<open>Number.MAX_VALUE\<close>, the largest finite double, \<open>(2\<^sup>5\<^sup>3 - 1) * 2\<^sup>9\<^sup>7\<^sup>1\<close>.\<close>

definition MAX_VALUE :: rat where
  "MAX_VALUE = 179769313486231570814527423731704356798070567525844996598917476803157260780028538760589558632766878171540458953514382464234321326889464182768467546703537516986049910576551282076245490090389328944075868508455133942304583236903222948165808559332123348274797826204144723168738177180919299881250404026184124858368"

text \<open>
  The double that an arithmetic operation returns for the exact result \<open>x\<close>: the nearest
  one, a tie going to the even significand.  With \<open>2\<^sup>e \<le> \<bar>x\<bar> < 2\<^sup>e\<^sup>+\<^sup>1\<close> the doubles near
  \<open>x\<close> are the multiples of \<open>2\<^sup>e\<^sup>-\<^sup>5\<^sup>2\<close>, of \<open>2\<^sup>-\<^sup>1\<^sup>0\<^sup>7\<^sup>4\<close> in the subnormal range; a rounded
  value beyond \<^verbatim>\<open>MAX_VALUE\<close> is an infinity.
\<close>

definition fl :: "rat \<Rightarrow> Number" where
  "fl x =
     (if x = 0 then Finite 0
      else
        (let a = \<bar>x\<bar>;
             d = bitlen (fst (quotient_of a)) - bitlen (snd (quotient_of a));
             e = (if pow2 d \<le> a then d else d - 1);
             u = pow2 (max e (- 1022) - 52);
             y = of_int (round_half_even (a / u)) * u
         in if MAX_VALUE < y then (if 0 < x then Infinity else NegInfinity)
            else Finite (if 0 < x then y else - y)))"

text \<open>\<^verbatim>\<open>x / y\<close>, \<^verbatim>\<open>x * y\<close>, \<^verbatim>\<open>Math.round(x)\<close> and \<^verbatim>\<open>x >= y\<close> on Numbers.\<close>

definition js_divide :: "Number \<Rightarrow> Number \<Rightarrow> Number" where
  "js_divide x y =
     (case (x, y) of
        (NaN, _) \<Rightarrow> NaN
      | (_, NaN) \<Rightarrow> NaN
      | (Finite a, Finite b) \<Rightarrow>
          if b = 0 then (if a = 0 then NaN else if 0 < a then Infinity else NegInfinity)
          else fl (a / b)
      | (Finite a, _) \<Rightarrow> Finite 0
      | (Infinity, Finite b) \<Rightarrow> if 0 \<le> b then Infinity else NegInfinity
      | (NegInfinity, Finite b) \<Rightarrow> if 0 \<le> b then NegInfinity else Infinity
      | (_, _) \<Rightarrow> NaN)"

definition js_times :: "Number \<Rightarrow> Number \<Rightarrow> Number" where
  "js_times x y =
     (case (x, y) of
        (NaN, _) \<Rightarrow> NaN
      | (_, NaN) \<Rightarrow> NaN
      | (Finite a, Finite b) \<Rightarrow> fl (a * b)
      | (Finite a, Infinity) \<Rightarrow>
          if a = 0 then NaN else if 0 < a then Infinity else NegInfinity
      | (Finite a, NegInfinity) \<Rightarrow>
          if a = 0 then NaN else if 0 < a then NegInfinity else Infinity
      | (Infinity, Finite b) \<Rightarrow>
          if b = 0 then NaN else if 0 < b then Infinity else NegInfinity
      | (NegInfinity, Finite b) \<Rightarrow>
          if b = 0 then NaN else if 0 < b then NegInfinity else Infinity
      | (Infinity, Infinity) \<Rightarrow> Infinity
      | (NegInfinity, NegInfinity) \<Rightarrow> Infinity
      | (_, _) \<Rightarrow> NegInfinity)"

text \<open>\<^verbatim>\<open>Math.round\<close>: the nearest integer, a tie going up; exact on every finite double.\<close>

definition Math_round :: "Number \<Rightarrow> Number" where
  "Math_round x = (case x of Finite a \<Rightarrow> Finite (of_int \<lfloor>a + 1 / 2\<rfloor>) | _ \<Rightarrow> x)"

definition js_ge :: "Number \<Rightarrow> Number \<Rightarrow> bool" where
  "js_ge x y =
     (case (x, y) of
        (NaN, _) \<Rightarrow> False
      | (_, NaN) \<Rightarrow> False
      | (Finite a, Finite b) \<Rightarrow> b \<le> a
      | (Infinity, _) \<Rightarrow> True
      | (_, NegInfinity) \<Rightarrow> True
      | (_, _) \<Rightarrow> False)"

section \<open>Budget model (server/models/Budget.js)\<close>

text \<open>
  \<^verbatim>\<open>this.spentAmount\<close> is the populate virtual that the schema declares
  (\<^verbatim>\<open>ref: 'Expense', foreignField: 'budget', justOne: false\<close>): undefined until it is
  populated, then the array of the Expense documents of the budget.  In
  \<^verbatim>\<open>(this.spentAmount || 0) / this.amount\<close> an array is truthy and the division converts
  it to a Number: the empty array to 0, an array of documents to NaN.
\<close>

definition spentAmount_or_zero :: "Expense list option \<Rightarrow> Number" where
  "spentAmount_or_zero v =
     (case v of None \<Rightarrow> Finite 0 | Some [] \<Rightarrow> Finite 0 | Some (e # es) \<Rightarrow> NaN)"

text \<open>The virtuals \<^verbatim>\<open>usagePercentage\<close> and \<^verbatim>\<open>isOverThreshold\<close>.\<close>

definition usagePercentage :: "Budget \<Rightarrow> Expense list option \<Rightarrow> Number" where
  "usagePercentage b spentAmount =
     (if b_amount b = 0 then Finite 0
      else Math_round
             (js_times (js_divide (spentAmount_or_zero spentAmount) (Finite (b_amount b)))
                (Finite 100)))"

definition isOverThreshold :: "Budget \<Rightarrow> Expense list option \<Rightarrow> bool" where
  "isOverThreshold b spentAmount =
     js_ge (usagePercentage b spentAmount) (Finite (alertThreshold b))"

text \<open>\<^verbatim>\<open>expense.convertedAmount || expense.amount\<close>: zero is falsy, as undefined is.\<close>

definition converted_or_amount :: "Expense \<Rightarrow> rat" where
  "converted_or_amount e =
     (case convertedAmount e of
        None \<Rightarrow> amount e
      | Some c \<Rightarrow> if c = 0 then amount e else c)"

text \<open>
  \<^verbatim>\<open>calculateSpentAmount\<close>: the query
  \<^verbatim>\<open>{budget: this._id, status: {$in: ['approved', 'reimbursed']}}\<close>, then the reduce.
  The sums of amounts, here and in \<^verbatim>\<open>checkBudgetAlert\<close>, are the exact ones.
\<close>

definition in_ledger :: "objectId \<Rightarrow> Expense \<Rightarrow> bool" where
  "in_ledger bid e =
     (budget e = Some bid \<and> (status e = Approved \<or> status e = Reimbursed))"

definition calculateSpentAmount :: "Store \<Rightarrow> objectId \<Rightarrow> rat" where
  "calculateSpentAmount st bid =
     foldl (\<lambda>total e. total + converted_or_amount e) 0
       (filter (in_ledger bid) (expenses st))"

section \<open>Budget alert (expenseController, checkBudgetAlert)\<close>

text \<open>
  The helper finds the budget, queries \<^verbatim>\<open>{budget: budgetId, status: 'approved'}\<close>, adds up
  \<^verbatim>\<open>expense.amount\<close>, and sends the alert when the rounded percentage reaches the
  threshold.  The call of \<^verbatim>\<open>sendBudgetAlert\<close> is the value \<open>Fire\<close>, with the owner
  reference of the budget (which the source populates), the budget, the spent amount and
  the percentage; \<open>Suppress\<close> is a return without that call, also when the budget is not
  found.
\<close>

definition alert_query :: "objectId \<Rightarrow> Expense \<Rightarrow> bool" where
  "alert_query bid e = (budget e = Some bid \<and> status e = Approved)"

definition alert_spentAmount :: "Store \<Rightarrow> objectId \<Rightarrow> rat" where
  "alert_spentAmount st bid =
     foldl (\<lambda>total e. total + amount e) 0 (filter (alert_query bid) (expenses st))"

definition alert_percentage :: "Budget \<Rightarrow> rat \<Rightarrow> Number" where
  "alert_percentage b spentAmount =
     (if 0 < b_amount b
      then Math_round
             (js_times (js_divide (Finite spentAmount) (Finite (b_amount b))) (Finite 100))
      else Finite 0)"

datatype NotifyDecision = Fire objectId Budget rat Number | Suppress

definition checkBudgetAlert :: "Store \<Rightarrow> objectId \<Rightarrow> NotifyDecision" where
  "checkBudgetAlert st budgetId =
     (case budgets st budgetId of
        None \<Rightarrow> Suppress
      | Some b \<Rightarrow>
          (let spentAmount = alert_spentAmount st budgetId;
               percentage = alert_percentage b spentAmount
           in if js_ge percentage (Finite (alertThreshold b))
              then Fire (owner b) b spentAmount percentage
              else Suppress))"

section \<open>Expense model (server/models/Expense.js)\<close>

text \<open>
  The setter \<^verbatim>\<open>trim: true\<close> of a String path is \<^verbatim>\<open>String.prototype.trim\<close>, which
  strips the white space and line terminators of ECMAScript from both ends: U+0009 to
  U+000D, U+0020, U+00A0, U+1680, U+2000 to U+200A, U+2028, U+2029, U+202F, U+205F, U+3000
  and U+FEFF.  The sanitizer \<^verbatim>\<open>trim()\<close> of the validation chains strips the same set
  (\<^verbatim>\<open>\s\<close>).
\<close>

definition is_space :: "code_unit \<Rightarrow> bool" where
  "is_space c =
     (c \<in> set [0x09, 0x0A, 0x0B, 0x0C, 0x0D, 0x20, 0xA0, 0x1680, 0x2028, 0x2029, 0x202F,
                 0x205F, 0x3000, 0xFEFF] \<or>
      (0x2000 \<le> c \<and> c \<le> 0x200A))"

definition trim :: "jsstring \<Rightarrow> jsstring" where
  "trim s = rev (dropWhile is_space (rev (dropWhile is_space s)))"

text \<open>
  The validators that the schema declares on the modelled paths: \<^verbatim>\<open>amount\<close> and
  \<^verbatim>\<open>exchangeRate\<close> have \<^verbatim>\<open>min: 0\<close>, \<^verbatim>\<open>rejectionReason\<close> has
  \<^verbatim>\<open>maxlength: 200\<close>.  \<^verbatim>\<open>save()\<close> and \<^verbatim>\<open>create()\<close> run them on the document.
\<close>

definition validate_doc :: "Expense \<Rightarrow> bool" where
  "validate_doc e =
     (0 \<le> amount e \<and> 0 \<le> exchangeRate e \<and>
      (case rejectionReason e of None \<Rightarrow> True | Some r \<Rightarrow> length r \<le> 200))"

text \<open>
  The \<^verbatim>\<open>pre('save')\<close> hook.  \<open>statusModified\<close> is \<^verbatim>\<open>this.isModified('status')\<close>,
  \<open>amountModified\<close> is
  \<^verbatim>\<open>this.isModified('amount') || this.isModified('exchangeRate')\<close>.  The product
  \<^verbatim>\<open>this.amount * (this.exchangeRate || 1)\<close> is the exact one.  The migration of the
  legacy receipt touches no modelled path.
\<close>

definition pre_save :: "msec \<Rightarrow> bool \<Rightarrow> bool \<Rightarrow> Expense \<Rightarrow> Expense" where
  "pre_save now statusModified amountModified e =
     (let e1 = (if statusModified \<and> status e = Approved \<and> approvalDate e = None
                then e\<lparr>approvalDate := Some now\<rparr> else e)
      in if amountModified
         then e1\<lparr>convertedAmount :=
                   Some (amount e1 * (if exchangeRate e1 = 0 then 1 else exchangeRate e1))\<rparr>
         else e1)"

definition addAuditLog :: "msec \<Rightarrow> AuditAction \<Rightarrow> objectId \<Rightarrow> Expense \<Rightarrow> Expense" where
  "addAuditLog now act actor e =
     e\<lparr>auditLog := auditLog e @ [\<lparr>action = act, performedBy = actor, timestamp = now\<rparr>]\<rparr>"

text \<open>\<^verbatim>\<open>expense.save()\<close> of a loaded document: validation, then the hook.\<close>

datatype Error =
    ValidationFailed | BudgetNotFound | BudgetInactive | OutOfPeriod
  | ExpenseNotFound | NotAuthorized | NotPendingEdit
  | InvalidStatus | MissingReason | NotPending
  | ValidationError | TypeError | InvalidActor | HasExpenses

definition save :: "msec \<Rightarrow> bool \<Rightarrow> bool \<Rightarrow> Expense \<Rightarrow> Error + Expense" where
  "save now statusModified amountModified e =
     (if validate_doc e then Inr (pre_save now statusModified amountModified e)
      else Inl ValidationError)"

text \<open>\<^verbatim>\<open>Expense.findById\<close>, and the write of one document back under its identifier.\<close>

definition findById :: "Store \<Rightarrow> objectId \<Rightarrow> Expense option" where
  "findById st i = find (\<lambda>e. e_id e = i) (expenses st)"

fun replace_first :: "objectId \<Rightarrow> Expense \<Rightarrow> Expense list \<Rightarrow> Expense list" where
  "replace_first i e' [] = []"
| "replace_first i e' (x # xs) =
     (if e_id x = i then e' # xs else x # replace_first i e' xs)"

section \<open>Expense controller (controllers/expenseController)\<close>

text \<open>
  What a handler does: the response (an error, or the expense sent back), the store after
  it, the call of \<^verbatim>\<open>sendExpenseNotification\<close> if one is made (recipient and action), and
  the outcome of \<^verbatim>\<open>checkBudgetAlert\<close> if it is called.
\<close>

record Outcome =
  response :: "Error + Expense"
  store :: Store
  notification :: "(objectId \<times> ExpenseStatus) option"
  alertCheck :: "NotifyDecision option"

definition failed :: "Error \<Rightarrow> Store \<Rightarrow> Outcome" where
  "failed err st = \<lparr>response = Inl err, store = st, notification = None, alertCheck = None\<rparr>"










text \<open>
  \<^verbatim>\<open>req.body\<close> of the review route.  A status outside the expense enum is read as an
  absent one: both fail the test \<^verbatim>\<open>['approved', 'rejected'].includes(status)\<close>.
\<close>

record ReviewBody =
  r_status :: "ExpenseStatus option"
  r_rejectionReason :: "jsstring option"

text \<open>A reason is falsy when it is absent or the empty string.\<close>

definition truthy :: "jsstring option \<Rightarrow> bool" where
  "truthy r = (case r of None \<Rightarrow> False | Some s \<Rightarrow> s \<noteq> [])"

definition reviewExpense :: "msec \<Rightarrow> Store \<Rightarrow> User \<Rightarrow> objectId \<Rightarrow> ReviewBody \<Rightarrow> Outcome" where
  "reviewExpense now st u eid body =
     (if r_status body \<noteq> Some Approved \<and> r_status body \<noteq> Some Rejected
      then failed InvalidStatus st
      else if r_status body = Some Rejected \<and> \<not> truthy (r_rejectionReason body)
      then failed MissingReason st
      else
        (case findById st eid of
           None \<Rightarrow> failed ExpenseNotFound st
         | Some e \<Rightarrow>
             if status e \<noteq> Pending then failed NotPending st
             else
               (case save now True False
                       (e\<lparr>status := (if r_status body = Some Approved then Approved else Rejected),
                          approvedBy := Some (u_id u),
                          approvalDate := Some now,
                          rejectionReason :=
                            (case r_rejectionReason body of
                               None \<Rightarrow> rejectionReason e
                             | Some r \<Rightarrow> if r = [] then rejectionReason e else Some (trim r))\<rparr>)
                of
                  Inl err \<Rightarrow> failed err st
                | Inr e' \<Rightarrow>
                    (let st' = st\<lparr>expenses := replace_first eid e' (expenses st)\<rparr>
                     in \<lparr>response = Inr e', store = st',
                         notification =
                           (if users st' (submittedBy e') = None then None
                            else Some (submittedBy e', status e')),
                         alertCheck =
                           (if r_status body = Some Approved
                            then (case budget e' of
                                    None \<Rightarrow> None
                                  | Some bid \<Rightarrow> Some (checkBudgetAlert st' bid))
                            else None)\<rparr>))))"

section \<open>Routes (routes/expenses)\<close>

text \<open>
  The middleware of \<^verbatim>\<open>middleware/auth\<close>.  \<^verbatim>\<open>protect\<close> answers 401 unless the token names
  a stored, active user, whom it puts in \<^verbatim>\<open>req.user\<close>: the handlers take that user as
  an argument.  \<^verbatim>\<open>authorize(...roles)\<close> lets the request pass when
  \<^verbatim>\<open>roles.includes(req.user.role)\<close> and answers 403 otherwise, the error \<open>InvalidActor\<close>.
\<close>

definition authorize :: "Role list \<Rightarrow> User \<Rightarrow> bool" where
  "authorize roles u = (role u \<in> set roles)"


definition review_route :: "msec \<Rightarrow> Store \<Rightarrow> User \<Rightarrow> objectId \<Rightarrow> ReviewBody \<Rightarrow> Outcome" where
  "review_route now st u eid body =
     (if \<not> authorize [Role_manager, Role_admin] u then failed InvalidActor st
      else reviewExpense now st u eid
             (if r_status body = Some Rejected
              then body\<lparr>r_rejectionReason := map_option trim (r_rejectionReason body)\<rparr>
              else body))"

section \<open>Budget controller (controllers/budgetController, deleteBudget)\<close>

definition countDocuments :: "Store \<Rightarrow> objectId \<Rightarrow> nat" where
  "countDocuments st bid = length (filter (\<lambda>e. budget e = Some bid) (expenses st))"

definition deleteBudget :: "Store \<Rightarrow> User \<Rightarrow> objectId \<Rightarrow> (Error + unit) \<times> Store" where
  "deleteBudget st u bid =
     (case budgets st bid of
        None \<Rightarrow> (Inl BudgetNotFound, st)
      | Some b \<Rightarrow>
          if role u \<noteq> Role_admin \<and> owner b \<noteq> u_id u then (Inl NotAuthorized, st)
          else if 0 < countDocuments st bid then (Inl HasExpenses, st)
          else (Inr (), st\<lparr>budgets := (budgets st)(bid := None)\<rparr>))"

section \<open>Scenario data\<close>

text \<open>
  The budget of the spec's scenarios (amount 1000, alert threshold 80), an expense against
  it, a manager and a submitter.
\<close>

abbreviation budget1000 :: Budget where
  "budget1000 \<equiv> \<lparr>b_amount = 1000, b_status = Active, startDate = 0, endDate = 1000,
                   owner = 7, alertThreshold = 80\<rparr>"

abbreviation expense1 :: "rat \<Rightarrow> rat \<Rightarrow> ExpenseStatus \<Rightarrow> Expense" where
  "expense1 a r s \<equiv> \<lparr>e_id = 2, amount = a, exchangeRate = r, convertedAmount = Some (a * r),
                      date = 10, budget = Some 5, status = s, submittedBy = 3,
                      approvedBy = None, approvalDate = None, rejectionReason = None,
                      auditLog = []\<rparr>"

abbreviation manager7 :: User where
  "manager7 \<equiv> \<lparr>u_id = 7, role = Role_manager\<rparr>"

abbreviation user3 :: User where
  "user3 \<equiv> \<lparr>u_id = 3, role = Role_user\<rparr>"

abbreviation store1 :: "Expense list \<Rightarrow> Store" where
  "store1 es \<equiv> \<lparr>budgets = [5 \<mapsto> budget1000], users = [3 \<mapsto> user3, 7 \<mapsto> manager7],
                  expenses = es\<rparr>"

section \<open>Properties\<close>

lemma foldl_add_sum_list:
  "foldl (\<lambda>total e. total + f e) a xs = a + sum_list (map f xs)"
  for a :: rat
  by (induction xs arbitrary: a) (simp_all add: add.assoc)

lemma calculateSpentAmount_sum:
  "calculateSpentAmount st bid =
     sum_list (map converted_or_amount (filter (in_ledger bid) (expenses st)))"
  by (simp add: calculateSpentAmount_def foldl_add_sum_list)


lemma calculateSpentAmount_skips:
  "status e = Pending \<or> status e = Rejected \<Longrightarrow>
   calculateSpentAmount (st\<lparr>expenses := es @ e # es'\<rparr>) bid =
   calculateSpentAmount (st\<lparr>expenses := es @ es'\<rparr>) bid"
  by (auto simp add: calculateSpentAmount_sum in_ledger_def)

subsection \<open>Percentages\<close>

lemma fl_zero [simp]: "fl 0 = Finite 0"
  by (simp add: fl_def)

lemma floor_half [simp]: "\<lfloor>(1::rat) / 2\<rfloor> = 0"
  by (simp add: floor_eq_iff)

text \<open>
  The expression \<^verbatim>\<open>Math.round((spentAmount / amount) * 100)\<close> at the numbers of the
  scenarios, each operation rounded to a double.
\<close>

lemma percentage_850_of_1000:
  "Math_round (js_times (js_divide (Finite 850) (Finite 1000)) (Finite 100)) = Finite 85"
  by code_simp

lemma percentage_750_of_1000:
  "Math_round (js_times (js_divide (Finite 750) (Finite 1000)) (Finite 100)) = Finite 75"
  by code_simp

lemma percentage_851_of_1000:
  "Math_round (js_times (js_divide (Finite 851) (Finite 1000)) (Finite 100)) = Finite 85"
  by code_simp

lemma percentage_425_of_1000:
  "Math_round (js_times (js_divide (Finite 425) (Finite 1000)) (Finite 100)) = Finite 43"
  by code_simp

lemma percentage_1_of_1000:
  "Math_round (js_times (js_divide (Finite 1) (Finite 1000)) (Finite 100)) = Finite 0"
  by code_simp

lemma percentage_0:
  "b \<noteq> 0 \<Longrightarrow> Math_round (js_times (js_divide (Finite 0) (Finite b)) (Finite 100)) = Finite 0"
  by (simp add: js_divide_def js_times_def Math_round_def)

lemma percentage_23_of_40:
  "Math_round (js_times (js_divide (Finite 23) (Finite 40)) (Finite 100)) = Finite 57"
  by code_simp

text \<open>The decision of \<^verbatim>\<open>checkBudgetAlert\<close> follows the percentage that it computes itself.\<close>

lemma checkBudgetAlert_decision:
  "budgets st bid = Some b \<Longrightarrow>
   checkBudgetAlert st bid =
     (if js_ge (alert_percentage b (alert_spentAmount st bid)) (Finite (alertThreshold b))
      then Fire (owner b) b (alert_spentAmount st bid)
             (alert_percentage b (alert_spentAmount st bid))
      else Suppress)"
  by (simp add: checkBudgetAlert_def Let_def)

text \<open>
  Claim C2.  The usage percentage of a budget is to be 0 when its amount is 0 and the
  rounded quotient \<open>spentAmount / amount * 100\<close> otherwise.  The virtual
  \<^verbatim>\<open>usagePercentage\<close> does return 0 on amount 0, where the unguarded quotient would be NaN.
  On any other amount it does not return the rounded quotient: it divides the populate
  virtual \<^verbatim>\<open>spentAmount\<close>, which is no Number.  For the scenario budget with one approved
  expense of 850 it is 0 when the virtual is not populated, as after every query of the
  controllers, and NaN when it is, so that \<^verbatim>\<open>isOverThreshold\<close> is false either way; the
  percentage that \<^verbatim>\<open>checkBudgetAlert\<close> computes from the same expense is 85.
\<close>

theorem usagePercentage_divides_populate_virtual:
  "usagePercentage budget1000 None = Finite 0 \<and>
   usagePercentage budget1000 (Some [expense1 850 1 Approved]) = NaN \<and>
   \<not> isOverThreshold budget1000 None \<and>
   \<not> isOverThreshold budget1000 (Some [expense1 850 1 Approved]) \<and>
   alert_percentage budget1000 (alert_spentAmount (store1 [expense1 850 1 Approved]) 5)
     = Finite 85 \<and>
   usagePercentage (budget1000\<lparr>b_amount := 0\<rparr>) (Some [expense1 850 1 Approved]) = Finite 0 \<and>
   js_divide (spentAmount_or_zero None) (Finite (b_amount (budget1000\<lparr>b_amount := 0\<rparr>))) = NaN"
proof -
  have u0: "usagePercentage budget1000 None = Finite 0"
    by (simp add: usagePercentage_def spentAmount_or_zero_def js_divide_def js_times_def
        Math_round_def)
  have u1: "usagePercentage budget1000 (Some [expense1 850 1 Approved]) = NaN"
    by (simp add: usagePercentage_def spentAmount_or_zero_def js_divide_def js_times_def
        Math_round_def)
  have a: "alert_percentage budget1000 (alert_spentAmount (store1 [expense1 850 1 Approved]) 5)
     = Finite 85"
    by (simp add: alert_percentage_def alert_spentAmount_def alert_query_def
        percentage_850_of_1000)
  have z: "usagePercentage (budget1000\<lparr>b_amount := 0\<rparr>) (Some [expense1 850 1 Approved])
     = Finite 0"
    by (simp add: usagePercentage_def)
  have d: "js_divide (spentAmount_or_zero None)
             (Finite (b_amount (budget1000\<lparr>b_amount := 0\<rparr>))) = NaN"
    by (simp add: spentAmount_or_zero_def js_divide_def)
  show ?thesis
    unfolding isOverThreshold_def u0 u1 using a z d by (simp add: js_ge_def)
qed

text \<open>
  Claim C1.  The spent amount of a budget is the sum of the converted amounts of its
  approved and reimbursed expenses.  \<^verbatim>\<open>calculateSpentAmount\<close> of the budget model computes
  that sum (\<open>calculateSpentAmount_sum\<close>, \<open>calculateSpentAmount_skips\<close>).  The spent amount
  that \<^verbatim>\<open>checkBudgetAlert\<close> computes does not: on the scenario budget with one reimbursed
  expense of 850 it is 0, where the model method gives 850, so that no alert is sent
  although the percentage of the ledger's amount is over the threshold; and with one
  approved expense of 100 at exchange rate 1.1 it is the unconverted 100, where the model
  method gives 110.
\<close>

theorem checkBudgetAlert_ignores_reimbursed_and_conversion:
  "alert_spentAmount (store1 [expense1 850 1 Reimbursed]) 5 = 0 \<and>
   calculateSpentAmount (store1 [expense1 850 1 Reimbursed]) 5 = 850 \<and>
   checkBudgetAlert (store1 [expense1 850 1 Reimbursed]) 5 = Suppress \<and>
   js_ge (alert_percentage budget1000
            (calculateSpentAmount (store1 [expense1 850 1 Reimbursed]) 5))
     (Finite (alertThreshold budget1000)) \<and>
   alert_spentAmount (store1 [expense1 100 (11 / 10) Approved]) 5 = 100 \<and>
   calculateSpentAmount (store1 [expense1 100 (11 / 10) Approved]) 5 = 110"
  by (simp add: alert_spentAmount_def calculateSpentAmount_def alert_query_def in_ledger_def
      converted_or_amount_def checkBudgetAlert_def alert_percentage_def js_ge_def
      percentage_850_of_1000 percentage_0)

text \<open>
  Claim C3.  The alert is to be sent exactly when the usage percentage of the budget's
  ledger is at least the alert threshold.  \<^verbatim>\<open>checkBudgetAlert\<close> decides on the percentage
  of its own sum (\<open>checkBudgetAlert_decision\<close>), the approved expenses at their unconverted
  amounts, which is the defect of claim C1.  On the scenario budget (amount 1000,
  threshold 80) a reimbursed expense of 850 and an approved one of 1 put the ledger at 851,
  85 percent, and no alert is sent; one approved expense of 850 at exchange rate 0.5 puts
  the ledger at 425, 43 percent, and the alert is sent with 85 percent.  The two scenarios
  of the claim come out as it says: one approved expense of 850 at rate 1 gives 85 percent
  and the alert, one of 750 gives 75 percent and none.
\<close>

theorem checkBudgetAlert_decides_on_its_own_sum:
  "calculateSpentAmount
     (store1 [expense1 850 1 Reimbursed, (expense1 1 1 Approved)\<lparr>e_id := 4\<rparr>]) 5 = 851 \<and>
   alert_percentage budget1000 851 = Finite 85 \<and>
   js_ge (Finite 85) (Finite (alertThreshold budget1000)) \<and>
   checkBudgetAlert
     (store1 [expense1 850 1 Reimbursed, (expense1 1 1 Approved)\<lparr>e_id := 4\<rparr>]) 5 = Suppress \<and>
   calculateSpentAmount (store1 [expense1 850 (1 / 2) Approved]) 5 = 425 \<and>
   alert_percentage budget1000 425 = Finite 43 \<and>
   \<not> js_ge (Finite 43) (Finite (alertThreshold budget1000)) \<and>
   checkBudgetAlert (store1 [expense1 850 (1 / 2) Approved]) 5
     = Fire 7 budget1000 850 (Finite 85) \<and>
   checkBudgetAlert (store1 [expense1 850 1 Approved]) 5 = Fire 7 budget1000 850 (Finite 85) \<and>
   checkBudgetAlert (store1 [expense1 750 1 Approved]) 5 = Suppress"
  by (simp add: alert_spentAmount_def calculateSpentAmount_def alert_query_def in_ledger_def
      converted_or_amount_def checkBudgetAlert_def alert_percentage_def js_ge_def
      percentage_850_of_1000 percentage_750_of_1000 percentage_851_of_1000
      percentage_425_of_1000 percentage_1_of_1000)

subsection \<open>Review of an expense\<close>

lemma find_replace_first:
  "find (\<lambda>x. e_id x = i) xs = Some e \<Longrightarrow> e_id e' = i \<Longrightarrow>
   find (\<lambda>x. e_id x = i) (replace_first i e' xs) = Some e'"
  by (induction xs) (auto split: if_splits)

lemma find_e_id: "find (\<lambda>x. e_id x = i) xs = Some e \<Longrightarrow> e_id e = i"
  by (induction xs) (auto split: if_splits)

lemma findById_e_id: "findById st i = Some e \<Longrightarrow> e_id e = i"
  unfolding findById_def by (rule find_e_id)

lemma pre_save_e_id [simp]: "e_id (pre_save now sm am e) = e_id e"
  by (simp add: pre_save_def Let_def)

lemma pre_save_status [simp]: "status (pre_save now sm am e) = status e"
  by (simp add: pre_save_def Let_def)

lemma pre_save_auditLog [simp]: "auditLog (pre_save now sm am e) = auditLog e"
  by (simp add: pre_save_def Let_def)

lemma pre_save_rejectionReason [simp]:
  "rejectionReason (pre_save now sm am e) = rejectionReason e"
  by (simp add: pre_save_def Let_def)

lemma save_Inr:
  "save now sm am e = Inr e' \<longleftrightarrow> validate_doc e \<and> e' = pre_save now sm am e"
  by (auto simp add: save_def)

lemma save_Inl:
  "save now sm am e = Inl err \<longleftrightarrow> \<not> validate_doc e \<and> err = ValidationError"
  by (auto simp add: save_def)

text \<open>What a review that passes its checks writes.\<close>

lemma reviewExpense_success:
  assumes "response (reviewExpense now st u eid body) = Inr e'"
  shows "\<exists>e. findById st eid = Some e \<and> status e = Pending \<and>
           (r_status body = Some Approved \<or> r_status body = Some Rejected) \<and>
           status e' = (if r_status body = Some Approved then Approved else Rejected) \<and>
           approvedBy e' = Some (u_id u) \<and> approvalDate e' = Some now \<and>
           auditLog e' = auditLog e \<and> e_id e' = eid \<and>
           store (reviewExpense now st u eid body) =
             st\<lparr>expenses := replace_first eid e' (expenses st)\<rparr>"
  using assms
  by (auto simp add: reviewExpense_def failed_def save_def pre_save_def Let_def
      dest: findById_e_id split: if_splits option.splits sum.splits)

lemma reviewExpense_non_pending:
  assumes "findById st eid = Some e" and "status e \<noteq> Pending"
  shows "reviewExpense now st u eid body =
           failed (if r_status body \<noteq> Some Approved \<and> r_status body \<noteq> Some Rejected
                   then InvalidStatus
                   else if r_status body = Some Rejected \<and> \<not> truthy (r_rejectionReason body)
                   then MissingReason else NotPending) st"
  using assms by (simp add: reviewExpense_def)

lemma dropWhile_rev_dropWhile_hd:
  "dropWhile P (rev (dropWhile P (rev (dropWhile P s)))) = rev (dropWhile P (rev (dropWhile P s)))"
proof (cases "dropWhile P s")
  case Nil
  show ?thesis unfolding Nil by simp
next
  case (Cons x xs)
  then have nx: "\<not> P x" using hd_dropWhile [of P s] by (metis list.sel(1) list.simps(3))
  have "rev (dropWhile P (rev (x # xs))) \<noteq> []"
    using nx by (simp add: dropWhile_append)
  moreover have "hd (rev (dropWhile P (rev (x # xs)))) = x"
    using nx by (simp add: dropWhile_append3 dropWhile_append  split: if_splits) 
  ultimately show ?thesis
    unfolding Cons using nx by (cases "rev (dropWhile P (rev (x # xs)))") auto
qed

lemma trim_trim: "trim (trim s) = trim s"
  unfolding trim_def by (simp add: dropWhile_rev_dropWhile_hd)

lemma length_code_units [simp]: "length (code_units s) = length s"
  by (simp add: code_units_def)

lemma code_units_Nil [simp]: "code_units s = [] \<longleftrightarrow> s = []"
  by (simp add: code_units_def)

lemma trim_no_break_space: "trim [0xA0] = [] \<and> trim [0x20, 0x78, 0x3000] = [0x78]"
  by (simp add: trim_def is_space_def)

lemma trim_replicate_x:
  "trim (code_units (replicate n CHR ''x'')) = code_units (replicate n CHR ''x'')"
  by (simp add: trim_def is_space_def code_units_def)

lemma trim_no_receipt: "trim (code_units ''no receipt'') = code_units ''no receipt''"
  by (simp add: trim_def is_space_def code_units_def)

lemma reviewExpense_rejected_with_reason:
  assumes "r_status body = Some Rejected" and "r_rejectionReason body = Some r"
    and "r \<noteq> []" and "length (trim r) \<le> 200"
    and "findById st eid = Some e" and "status e = Pending"
    and "0 \<le> amount e" and "0 \<le> exchangeRate e"
  shows "\<exists>e'. response (reviewExpense now st u eid body) = Inr e' \<and>
           status e' = Rejected \<and> rejectionReason e' = Some (trim r) \<and>
           findById (store (reviewExpense now st u eid body)) eid = Some e'"
proof -
  let ?e1 = "e\<lparr>status := Rejected, approvedBy := Some (u_id u), approvalDate := Some now,
                rejectionReason := Some (trim r)\<rparr>"
  have v: "validate_doc ?e1"
    using assms by (simp add: validate_doc_def)
  have i: "e_id ?e1 = eid"
    using findById_e_id [OF assms(5)] by simp
  have p: "pre_save now True False ?e1 = ?e1"
    by (simp add: pre_save_def)
  have "reviewExpense now st u eid body =
          \<lparr>response = Inr ?e1,
           store = st\<lparr>expenses := replace_first eid ?e1 (expenses st)\<rparr>,
           notification = (if users st (submittedBy e) = None then None
                           else Some (submittedBy e, Rejected)),
           alertCheck = None\<rparr>"
    using assms v by (simp add: reviewExpense_def truthy_def save_def p Let_def)
  moreover have "findById (st\<lparr>expenses := replace_first eid ?e1 (expenses st)\<rparr>) eid = Some ?e1"
    using assms(5) i unfolding findById_def by (simp add: find_replace_first)
  ultimately show ?thesis by simp
qed

lemma reviewExpense_auditLog_unchanged:
  "findById st eid = Some e \<Longrightarrow> response (reviewExpense now st u eid body) = Inr e' \<Longrightarrow>
   auditLog e' = auditLog e"
  using reviewExpense_success [of now st u eid body e'] by auto

text \<open>
  Against claim C4 as it is stated: a review of an expense that is not pending does not
  always fail with \<open>NotPending\<close>:
  the handler tests the body before it loads the expense, so a rejection without a reason
  of an approved expense fails with \<open>MissingReason\<close>.
\<close>

theorem review_non_pending_counterexample:
  "findById (store1 [expense1 850 1 Approved]) 2 = Some (expense1 850 1 Approved) \<and>
   status (expense1 850 1 Approved) \<noteq> Pending \<and>
   response (reviewExpense 50 (store1 [expense1 850 1 Approved]) manager7 2
               \<lparr>r_status = Some Rejected, r_rejectionReason = None\<rparr>) = Inl MissingReason \<and>
   response (reviewExpense 50 (store1 [expense1 850 1 Approved]) manager7 2
               \<lparr>r_status = Some Rejected, r_rejectionReason = None\<rparr>) \<noteq> Inl NotPending \<and>
   response (review_route 50 (store1 [expense1 850 1 Approved]) manager7 2
               \<lparr>r_status = Some Rejected, r_rejectionReason = None\<rparr>) = Inl MissingReason"
  by (simp add: reviewExpense_def review_route_def authorize_def findById_def failed_def
      truthy_def)

text \<open>
  Claim C4, as amended.  A review of a stored expense that is not pending always fails
  and leaves the store, and so the expense, as it was; the failure is \<open>NotPending\<close>
  whenever the decision is an approval, or a rejection with a reason.  After a successful
  approval at time \<open>now\<close>, a second approval fails with \<open>NotPending\<close> and the stored
  expense is still the one the first approval returned, whose approval date is \<open>now\<close>.
\<close>

theorem review_non_pending_fails_unchanged:
  "(findById st eid = Some e \<and> status e \<noteq> Pending \<longrightarrow>
      isl (response (reviewExpense now st u eid body)) \<and>
      store (reviewExpense now st u eid body) = st \<and>
      findById (store (reviewExpense now st u eid body)) eid = Some e \<and>
      (r_status body = Some Approved \<or>
       r_status body = Some Rejected \<and> truthy (r_rejectionReason body) \<longrightarrow>
         response (reviewExpense now st u eid body) = Inl NotPending)) \<and>
   (response (reviewExpense now st u eid \<lparr>r_status = Some Approved, r_rejectionReason = r\<rparr>)
      = Inr e1 \<longrightarrow>
      approvalDate e1 = Some now \<and>
      response (reviewExpense now2 (store (reviewExpense now st u eid
                   \<lparr>r_status = Some Approved, r_rejectionReason = r\<rparr>)) u2 eid
                 \<lparr>r_status = Some Approved, r_rejectionReason = r2\<rparr>) = Inl NotPending \<and>
      findById (store (reviewExpense now2 (store (reviewExpense now st u eid
                   \<lparr>r_status = Some Approved, r_rejectionReason = r\<rparr>)) u2 eid
                 \<lparr>r_status = Some Approved, r_rejectionReason = r2\<rparr>)) eid = Some e1)"
proof (intro conjI impI)
  assume a: "findById st eid = Some e \<and> status e \<noteq> Pending"
  note f = reviewExpense_non_pending [OF conjunct1 [OF a] conjunct2 [OF a], of now u body]
  show "isl (response (reviewExpense now st u eid body))"
    by (simp add: f failed_def)
  show "store (reviewExpense now st u eid body) = st"
    by (simp add: f failed_def)
  show "findById (store (reviewExpense now st u eid body)) eid = Some e"
    using a by (simp add: f failed_def)
  assume "r_status body = Some Approved \<or>
       r_status body = Some Rejected \<and> truthy (r_rejectionReason body)"
  then show "response (reviewExpense now st u eid body) = Inl NotPending"
    by (auto simp add: f failed_def)
next
  let ?b = "\<lparr>r_status = Some Approved, r_rejectionReason = r\<rparr>"
  let ?b2 = "\<lparr>r_status = Some Approved, r_rejectionReason = r2\<rparr>"
  let ?st1 = "store (reviewExpense now st u eid ?b)"
  assume ok: "response (reviewExpense now st u eid ?b) = Inr e1"
  from reviewExpense_success [OF ok] obtain e where
    e: "findById st eid = Some e" and s1: "status e1 = Approved"
    and d1: "approvalDate e1 = Some now" and i1: "e_id e1 = eid"
    and st1: "?st1 = st\<lparr>expenses := replace_first eid e1 (expenses st)\<rparr>"
    by auto
  have f1: "findById ?st1 eid = Some e1"
    using e i1 unfolding st1 findById_def by (simp add: find_replace_first)
  have np: "status e1 \<noteq> Pending" using s1 by simp
  note f = reviewExpense_non_pending [OF f1 np, of now2 u2 ?b2]
  show "approvalDate e1 = Some now" by (rule d1)
  show "response (reviewExpense now2 ?st1 u2 eid ?b2) = Inl NotPending"
    by (simp add: f failed_def)
  show "findById (store (reviewExpense now2 ?st1 u2 eid ?b2)) eid = Some e1"
    using f1 by (simp add: f failed_def)
qed

theorem review_non_pending_fails_unchanged_witness:
  "response (reviewExpense 50 (store1 [expense1 850 1 Reimbursed]) manager7 2
               \<lparr>r_status = Some Approved, r_rejectionReason = None\<rparr>) = Inl NotPending \<and>
   store (reviewExpense 50 (store1 [expense1 850 1 Reimbursed]) manager7 2
               \<lparr>r_status = Some Approved, r_rejectionReason = None\<rparr>)
     = store1 [expense1 850 1 Reimbursed] \<and>
   response (reviewExpense 60 (store (reviewExpense 50 (store1 [expense1 850 1 Pending]) manager7 2
                   \<lparr>r_status = Some Approved, r_rejectionReason = None\<rparr>)) manager7 2
               \<lparr>r_status = Some Approved, r_rejectionReason = None\<rparr>) = Inl NotPending \<and>
   findById (store (reviewExpense 60 (store (reviewExpense 50 (store1 [expense1 850 1 Pending])
                   manager7 2 \<lparr>r_status = Some Approved, r_rejectionReason = None\<rparr>)) manager7 2
               \<lparr>r_status = Some Approved, r_rejectionReason = None\<rparr>)) 2
     = Some ((expense1 850 1 Approved)\<lparr>approvedBy := Some 7, approvalDate := Some 50\<rparr>)"
proof -
  have f: "findById (store1 [expense1 850 1 Reimbursed]) 2 = Some (expense1 850 1 Reimbursed)"
    by (simp add: findById_def)
  have r: "response (reviewExpense 50 (store1 [expense1 850 1 Pending]) manager7 2
               \<lparr>r_status = Some Approved, r_rejectionReason = None\<rparr>)
           = Inr ((expense1 850 1 Approved)\<lparr>approvedBy := Some 7, approvalDate := Some 50\<rparr>)"
    by (simp add: reviewExpense_def findById_def save_def validate_doc_def pre_save_def
        Let_def)
  show ?thesis
    using review_non_pending_fails_unchanged
        [of "store1 [expense1 850 1 Reimbursed]" 2 "expense1 850 1 Reimbursed" 50 manager7
            "\<lparr>r_status = Some Approved, r_rejectionReason = None\<rparr>"
            None "(expense1 850 1 Reimbursed)" 0 manager7 None]
      review_non_pending_fails_unchanged
        [of "store1 [expense1 850 1 Pending]" 2 "expense1 850 1 Pending" 50 manager7
            "\<lparr>r_status = Some Approved, r_rejectionReason = None\<rparr>"
            None "(expense1 850 1 Approved)\<lparr>approvedBy := Some 7, approvalDate := Some 50\<rparr>"
            60 manager7 None]
      f r
    by simp
qed

text \<open>
  Against claim C5 as it is stated: a rejection with a non-empty reason does not always
  succeed on a pending expense, for a manager: the
  schema limits \<^verbatim>\<open>rejectionReason\<close> to 200 characters, and \<^verbatim>\<open>save()\<close> refuses a reason
  of 201.
\<close>

theorem review_rejected_long_reason_counterexample:
  "findById (store1 [expense1 850 1 Pending]) 2 = Some (expense1 850 1 Pending) \<and>
   status (expense1 850 1 Pending) = Pending \<and> role manager7 = Role_manager \<and>
   code_units (replicate 201 CHR ''x'') \<noteq> [] \<and>
   response (reviewExpense 50 (store1 [expense1 850 1 Pending]) manager7 2
               \<lparr>r_status = Some Rejected,
                r_rejectionReason = Some (code_units (replicate 201 CHR ''x''))\<rparr>) = Inl ValidationError \<and>
   response (review_route 50 (store1 [expense1 850 1 Pending]) manager7 2
               \<lparr>r_status = Some Rejected,
                r_rejectionReason = Some (code_units (replicate 201 CHR ''x''))\<rparr>) = Inl ValidationError"
  by (simp add: reviewExpense_def review_route_def authorize_def findById_def truthy_def
      save_def validate_doc_def failed_def trim_replicate_x)

text \<open>
  Claim C5, as amended.  A rejection whose reason is absent or empty always fails with
  \<open>MissingReason\<close>, whatever the expense.  A rejection with a non-empty reason of at most
  200 characters once trimmed succeeds on a pending stored expense within the schema's
  ranges, for a manager or an admin: the expense returned and stored has status rejected
  and the trimmed reason.  Through the route, whose sanitizer trims the reason before the
  handler tests it, the same holds when the trimmed reason is not empty.
\<close>

theorem review_rejected_reason:
  "(r_status body = Some Rejected \<and> \<not> truthy (r_rejectionReason body) \<longrightarrow>
      response (reviewExpense now st u eid body) = Inl MissingReason \<and>
      store (reviewExpense now st u eid body) = st) \<and>
   (r_status body = Some Rejected \<and> r_rejectionReason body = Some r \<and>
    r \<noteq> [] \<and> length (trim r) \<le> 200 \<and>
    findById st eid = Some e \<and> status e = Pending \<and>
    0 \<le> amount e \<and> 0 \<le> exchangeRate e \<and>
    (role u = Role_manager \<or> role u = Role_admin) \<longrightarrow>
      (\<exists>e'. response (reviewExpense now st u eid body) = Inr e' \<and>
            status e' = Rejected \<and> rejectionReason e' = Some (trim r) \<and>
            findById (store (reviewExpense now st u eid body)) eid = Some e') \<and>
      (trim r \<noteq> [] \<longrightarrow>
        (\<exists>e'. response (review_route now st u eid body) = Inr e' \<and>
            status e' = Rejected \<and> rejectionReason e' = Some (trim r) \<and>
            findById (store (review_route now st u eid body)) eid = Some e')))"
proof (intro conjI impI)
  assume "r_status body = Some Rejected \<and> \<not> truthy (r_rejectionReason body)"
  then show "response (reviewExpense now st u eid body) = Inl MissingReason"
    and "store (reviewExpense now st u eid body) = st"
    by (simp_all add: reviewExpense_def failed_def)
next
  assume a: "r_status body = Some Rejected \<and> r_rejectionReason body = Some r \<and>
    r \<noteq> [] \<and> length (trim r) \<le> 200 \<and>
    findById st eid = Some e \<and> status e = Pending \<and>
    0 \<le> amount e \<and> 0 \<le> exchangeRate e \<and>
    (role u = Role_manager \<or> role u = Role_admin)"
  then show "\<exists>e'. response (reviewExpense now st u eid body) = Inr e' \<and>
            status e' = Rejected \<and> rejectionReason e' = Some (trim r) \<and>
            findById (store (reviewExpense now st u eid body)) eid = Some e'"
    by (intro reviewExpense_rejected_with_reason [where e = e]) simp_all
  assume t: "trim r \<noteq> []"
  let ?b = "body\<lparr>r_rejectionReason := Some (trim r)\<rparr>"
  have rr: "review_route now st u eid body = reviewExpense now st u eid ?b"
    using a by (auto simp add: review_route_def authorize_def)
  have "\<exists>e'. response (reviewExpense now st u eid ?b) = Inr e' \<and>
            status e' = Rejected \<and> rejectionReason e' = Some (trim (trim r)) \<and>
            findById (store (reviewExpense now st u eid ?b)) eid = Some e'"
    using a t by (intro reviewExpense_rejected_with_reason [where e = e]) (simp_all add: trim_trim)
  then show "\<exists>e'. response (review_route now st u eid body) = Inr e' \<and>
            status e' = Rejected \<and> rejectionReason e' = Some (trim r) \<and>
            findById (store (review_route now st u eid body)) eid = Some e'"
    by (simp add: rr trim_trim)
qed

theorem review_rejected_reason_witness:
  "response (reviewExpense 50 (store1 [expense1 850 1 Approved]) user3 2
               \<lparr>r_status = Some Rejected, r_rejectionReason = Some []\<rparr>) = Inl MissingReason \<and>
   (\<exists>e'. response (reviewExpense 50 (store1 [expense1 850 1 Pending]) manager7 2
               \<lparr>r_status = Some Rejected, r_rejectionReason = Some (code_units ''no receipt'')\<rparr>) = Inr e' \<and>
         status e' = Rejected \<and> rejectionReason e' = Some (code_units ''no receipt'')) \<and>
   (\<exists>e'. response (review_route 50 (store1 [expense1 850 1 Pending]) manager7 2
               \<lparr>r_status = Some Rejected, r_rejectionReason = Some (code_units ''no receipt'')\<rparr>) = Inr e' \<and>
         status e' = Rejected \<and> rejectionReason e' = Some (code_units ''no receipt''))"
proof -
  have f: "findById (store1 [expense1 850 1 Pending]) 2 = Some (expense1 850 1 Pending)"
    by (simp add: findById_def)
  have 1: "response (reviewExpense 50 (store1 [expense1 850 1 Approved]) user3 2
               \<lparr>r_status = Some Rejected, r_rejectionReason = Some []\<rparr>) = Inl MissingReason"
    using review_rejected_reason
        [of "\<lparr>r_status = Some Rejected, r_rejectionReason = Some []\<rparr>" 50
            "store1 [expense1 850 1 Approved]" user3 2 "[]" "expense1 850 1 Approved"]
    by (simp add: truthy_def)
  have 2: "(\<exists>e'. response (reviewExpense 50 (store1 [expense1 850 1 Pending]) manager7 2
               \<lparr>r_status = Some Rejected, r_rejectionReason = Some (code_units ''no receipt'')\<rparr>) = Inr e' \<and>
         status e' = Rejected \<and> rejectionReason e' = Some (code_units ''no receipt'')) \<and>
     (\<exists>e'. response (review_route 50 (store1 [expense1 850 1 Pending]) manager7 2
               \<lparr>r_status = Some Rejected, r_rejectionReason = Some (code_units ''no receipt'')\<rparr>) = Inr e' \<and>
         status e' = Rejected \<and> rejectionReason e' = Some (code_units ''no receipt''))"
    using review_rejected_reason
        [of "\<lparr>r_status = Some Rejected, r_rejectionReason = Some (code_units ''no receipt'')\<rparr>" 50
            "store1 [expense1 850 1 Pending]" manager7 2 "code_units ''no receipt''"
            "expense1 850 1 Pending"] f
    by (simp add: trim_no_receipt truthy_def) blast
  from 1 2 show ?thesis by blast
qed

text \<open>
  Claim C6.  A rejection is to set the status and the rejection reason only, the approval
  date being set on the first approval alone.  The handler assigns \<^verbatim>\<open>approvedBy\<close> and
  \<^verbatim>\<open>approvalDate\<close> before it looks at the decision: the manager 7 rejecting a pending
  expense at time 50 leaves it with \<open>approvedBy = Some 7\<close> and \<open>approvalDate = Some 50\<close>.
  The save hook of the model, run on the same change of status, sets no approval date.
\<close>

theorem review_rejected_sets_approval_fields:
  "response (reviewExpense 50 (store1 [expense1 850 1 Pending]) manager7 2
               \<lparr>r_status = Some Rejected, r_rejectionReason = Some (code_units ''no receipt'')\<rparr>)
     = Inr ((expense1 850 1 Rejected)
              \<lparr>approvedBy := Some 7, approvalDate := Some 50,
               rejectionReason := Some (code_units ''no receipt'')\<rparr>) \<and>
   approvalDate (expense1 850 1 Pending) = None \<and>
   approvedBy (expense1 850 1 Pending) = None \<and>
   pre_save 50 True False ((expense1 850 1 Pending)\<lparr>status := Rejected\<rparr>)
     = (expense1 850 1 Rejected)"
  by (simp add: reviewExpense_def findById_def truthy_def save_def validate_doc_def
      pre_save_def trim_no_receipt)

text \<open>
  Claim C7.  A successful review is to append an audit entry tagged with the decision.
  The handler never calls \<^verbatim>\<open>addAuditLog\<close>: after the manager 7 approves a pending
  expense, its audit log is still empty, where the model's method would have given it the
  one entry (\<open>reviewExpense_auditLog_unchanged\<close> for every review).
\<close>

theorem review_appends_no_audit_entry:
  "response (reviewExpense 50 (store1 [expense1 850 1 Pending]) manager7 2
               \<lparr>r_status = Some Approved, r_rejectionReason = None\<rparr>)
     = Inr ((expense1 850 1 Approved)\<lparr>approvedBy := Some 7, approvalDate := Some 50\<rparr>) \<and>
   auditLog ((expense1 850 1 Approved)\<lparr>approvedBy := Some 7, approvalDate := Some 50\<rparr>) = [] \<and>
   auditLog (addAuditLog 50 AuditApproved 7
               ((expense1 850 1 Approved)\<lparr>approvedBy := Some 7, approvalDate := Some 50\<rparr>))
     = [\<lparr>action = AuditApproved, performedBy = 7, timestamp = 50\<rparr>] \<and>
   expenses (store (reviewExpense 50 (store1 [expense1 850 1 Pending]) manager7 2
               \<lparr>r_status = Some Approved, r_rejectionReason = None\<rparr>))
     = [(expense1 850 1 Approved)\<lparr>approvedBy := Some 7, approvalDate := Some 50\<rparr>]"
  by (simp add: reviewExpense_def findById_def truthy_def save_def validate_doc_def
      pre_save_def addAuditLog_def Let_def)

subsection \<open>Submission of an expense\<close>





subsection \<open>Deletion of a budget\<close>

lemma countDocuments_pos:
  "0 < countDocuments st bid \<longleftrightarrow> (\<exists>e \<in> set (expenses st). budget e = Some bid)"
  by (simp add: countDocuments_def filter_empty_conv)

text \<open>
  Claim C9.  When some expense, of any status, references the budget, \<^verbatim>\<open>deleteBudget\<close>
  fails and the store is the one before; for the owner or an admin the failure is
  \<open>HasExpenses\<close>.  A deletion that succeeds had no expense referencing the budget, and
  the owner or an admin deleting a stored budget without expenses does succeed.
\<close>

theorem deleteBudget_linked_expenses:
  "((\<exists>e \<in> set (expenses st). budget e = Some bid) \<longrightarrow>
      isl (fst (deleteBudget st u bid)) \<and> snd (deleteBudget st u bid) = st \<and>
      (budgets st bid = Some b \<and> (role u = Role_admin \<or> owner b = u_id u) \<longrightarrow>
         fst (deleteBudget st u bid) = Inl HasExpenses)) \<and>
   (fst (deleteBudget st u bid) = Inr () \<longrightarrow>
      (\<forall>e \<in> set (expenses st). budget e \<noteq> Some bid) \<and>
      budgets (snd (deleteBudget st u bid)) bid = None) \<and>
   (budgets st bid = Some b \<and> (role u = Role_admin \<or> owner b = u_id u) \<and>
    (\<forall>e \<in> set (expenses st). budget e \<noteq> Some bid) \<longrightarrow>
      fst (deleteBudget st u bid) = Inr () \<and>
      snd (deleteBudget st u bid) = st\<lparr>budgets := (budgets st)(bid := None)\<rparr>)"
proof (intro conjI impI)
  assume l: "\<exists>e \<in> set (expenses st). budget e = Some bid"
  then have c: "0 < countDocuments st bid" by (simp add: countDocuments_pos)
  show "isl (fst (deleteBudget st u bid))"
    using c by (simp add: deleteBudget_def split: option.splits)
  show "snd (deleteBudget st u bid) = st"
    using c by (simp add: deleteBudget_def split: option.splits)
  assume "budgets st bid = Some b \<and> (role u = Role_admin \<or> owner b = u_id u)"
  then show "fst (deleteBudget st u bid) = Inl HasExpenses"
    using c by (auto simp add: deleteBudget_def)
next
  assume s: "fst (deleteBudget st u bid) = Inr ()"
  then have c: "\<not> 0 < countDocuments st bid"
    by (auto simp add: deleteBudget_def split: option.splits if_splits)
  then show "\<forall>e \<in> set (expenses st). budget e \<noteq> Some bid"
    unfolding countDocuments_pos by blast
  show "budgets (snd (deleteBudget st u bid)) bid = None"
    using s by (auto simp add: deleteBudget_def split: option.splits if_splits)
next
  assume a: "budgets st bid = Some b \<and> (role u = Role_admin \<or> owner b = u_id u) \<and>
    (\<forall>e \<in> set (expenses st). budget e \<noteq> Some bid)"
  then have c: "\<not> 0 < countDocuments st bid"
    unfolding countDocuments_pos by blast
  show "fst (deleteBudget st u bid) = Inr ()"
    using a c by (auto simp add: deleteBudget_def)
  show "snd (deleteBudget st u bid) = st\<lparr>budgets := (budgets st)(bid := None)\<rparr>"
    using a c by (auto simp add: deleteBudget_def)
qed

theorem deleteBudget_linked_expenses_witness:
  "deleteBudget (store1 [expense1 850 1 Rejected]) manager7 5
     = (Inl HasExpenses, store1 [expense1 850 1 Rejected]) \<and>
   fst (deleteBudget (store1 []) manager7 5) = Inr () \<and>
   budgets (snd (deleteBudget (store1 []) manager7 5)) 5 = None"
proof -
  have 1: "fst (deleteBudget (store1 [expense1 850 1 Rejected]) manager7 5) = Inl HasExpenses \<and>
           snd (deleteBudget (store1 [expense1 850 1 Rejected]) manager7 5)
             = store1 [expense1 850 1 Rejected]"
    using deleteBudget_linked_expenses
        [of "store1 [expense1 850 1 Rejected]" 5 manager7 budget1000]
    by simp
  have 2: "fst (deleteBudget (store1 []) manager7 5) = Inr () \<and>
           budgets (snd (deleteBudget (store1 []) manager7 5)) 5 = None"
    using deleteBudget_linked_expenses [of "store1 []" 5 manager7 budget1000]
    by simp
  from 1 2 show ?thesis by (simp add: prod_eq_iff)
qed

subsection \<open>Update of an expense\<close>


lemma converted_or_amount_status [simp]:
  "converted_or_amount (e\<lparr>status := s\<rparr>) = converted_or_amount e"
  by (simp add: converted_or_amount_def split: option.splits)



end
